theory Spec2Isabelle
  imports Main "HOL-Library.Word"
begin

section \<open>The pour controller of brita-filler.ino\<close>

text \<open>
  The sketch keeps two global objects, \<open>program_state\<close> (a \<open>state_t\<close>) and
  \<open>current_pour\<close> (a \<open>pour_t\<close>). The field \<open>state->current_pour\<close> is a pointer
  that is either \<open>NULL\<close> or the address of the one global \<open>pour_t\<close>, so the memory
  of the program is modelled as a record of the two objects and the pointer as
  a two-valued datatype. Hardware reads (\<open>digitalRead\<close>, \<open>analogRead\<close>,
  \<open>millis\<close>) are parameters of the functions that perform them.

  \<open>unsigned long\<close> is a 32-bit word and \<open>unsigned char\<close> an 8-bit word; their
  arithmetic wraps. The \<open>int\<close> constants and the raw sensor reading take part in
  comparisons only, never in arithmetic, and are modelled as integers; an
  \<open>unsigned char\<close> compared with an \<open>int\<close> is promoted (\<open>uint\<close>), an \<open>int\<close>
  compared with an \<open>unsigned long\<close> is converted (\<open>word_of_int\<close>).
\<close>

type_synonym ulong = "32 word"
type_synonym uchar = "8 word"

subsection \<open>Constants\<close>

definition THRESHOLD :: int where
  "THRESHOLD = 900"

definition CONSECUTIVE :: int where
  "CONSECUTIVE = 5"

definition LOCKOUT_TIME_MS :: int where
  "LOCKOUT_TIME_MS = 30000"

definition HYSTERESIS_TIME_MS :: int where
  "HYSTERESIS_TIME_MS = 10000"

subsection \<open>Data\<close>

record pour_t =
  manual :: bool
  start :: ulong
  lockout_start :: ulong

text \<open>A \<open>pour_t*\<close>: \<open>NULL\<close>, or the address of the global \<open>current_pour\<close>.\<close>

datatype pour_ptr = NULL | Addr_current_pour

record state_t =
  current_pour :: pour_ptr
  lockout :: bool
  count :: uchar
  last_raw_reading :: int

text \<open>The two globals of the sketch.\<close>

record memory =
  current_pour_obj :: pour_t
  program_state :: state_t

text \<open>
  The initial values of the globals. The initialiser of \<open>program_state\<close> leaves
  \<open>last_raw_reading\<close> out, which zero-initialises it.
\<close>

definition initial_memory :: memory where
  "initial_memory =
     \<lparr>current_pour_obj = \<lparr>manual = False, start = 0, lockout_start = 0\<rparr>,
      program_state = \<lparr>current_pour = NULL, lockout = False, count = 0,
                       last_raw_reading = 0\<rparr>\<rparr>"

subsection \<open>The sensor debouncer\<close>

text \<open>\<open>update_auto_pour\<close>; \<open>current_sense\<close> is the value read by \<open>raw_sense()\<close>.\<close>

definition update_auto_pour :: "int \<Rightarrow> state_t \<Rightarrow> state_t" where
  "update_auto_pour current_sense state =
     (let state = state\<lparr>last_raw_reading := current_sense\<rparr> in
      if current_sense \<le> THRESHOLD \<and> uint (count state) < CONSECUTIVE
      then state\<lparr>count := count state + 1\<rparr>
      else if current_sense > THRESHOLD
      then state\<lparr>count := 0\<rparr>
      else state)"

subsection \<open>The state machine\<close>

text \<open>
  \<open>update_state\<close>, called on \<open>&program_state\<close>. \<open>enabled\<close> is the value read by
  \<open>is_enabled()\<close>, \<open>current_time\<close> the one read by \<open>millis()\<close> and
  \<open>manual_btn\<close> the one read by \<open>is_manual()\<close>. Inside the pouring branch
  \<open>pour\<close> is \<open>state->current_pour\<close>, the address of the global object, so the
  writes through it go to \<open>current_pour_obj\<close>.
\<close>

definition update_state :: "bool \<Rightarrow> ulong \<Rightarrow> bool \<Rightarrow> memory \<Rightarrow> memory" where
  "update_state enabled current_time manual_btn m =
     (let state = program_state m; pour = current_pour_obj m in
      if \<not> enabled \<or> lockout state then
        (let state = (if \<not> enabled then state\<lparr>lockout := False\<rparr> else state) in
         m\<lparr>program_state := state\<lparr>count := 0, current_pour := NULL\<rparr>\<rparr>)
      else if current_pour state \<noteq> NULL then
        (if current_time < lockout_start pour
            \<or> current_time - lockout_start pour \<ge> word_of_int LOCKOUT_TIME_MS
         then
           \<lparr>current_pour_obj = pour\<lparr>start := 0, lockout_start := 0, manual := False\<rparr>,
            program_state = state\<lparr>lockout := True, current_pour := NULL, count := 0\<rparr>\<rparr>
         else if manual_btn then
           \<lparr>current_pour_obj = pour\<lparr>manual := True\<rparr>,
            program_state = state\<lparr>count := 0\<rparr>\<rparr>
         else if uint (count state) \<ge> CONSECUTIVE then
           \<lparr>current_pour_obj = pour\<lparr>manual := False, start := current_time\<rparr>,
            program_state = state\<rparr>
         else if manual pour then
           \<lparr>current_pour_obj = pour\<lparr>manual := False, start := 0, lockout_start := 0\<rparr>,
            program_state = state\<lparr>current_pour := NULL\<rparr>\<rparr>
         else if current_time < start pour
            \<or> current_time - start pour \<ge> word_of_int HYSTERESIS_TIME_MS
         then
           \<lparr>current_pour_obj = pour\<lparr>start := 0, manual := False, lockout_start := 0\<rparr>,
            program_state = state\<lparr>current_pour := NULL\<rparr>\<rparr>
         else m)
      else
        (if manual_btn then
           \<lparr>current_pour_obj =
              pour\<lparr>manual := True, lockout_start := current_time, start := current_time\<rparr>,
            program_state = state\<lparr>count := 0, current_pour := Addr_current_pour\<rparr>\<rparr>
         else if uint (count state) \<ge> CONSECUTIVE then
           \<lparr>current_pour_obj =
              pour\<lparr>manual := False, start := current_time, lockout_start := current_time\<rparr>,
            program_state = state\<lparr>current_pour := Addr_current_pour\<rparr>\<rparr>
         else m))"

text \<open>\<open>should_pour\<close>: the valve command.\<close>

definition should_pour :: "state_t \<Rightarrow> bool" where
  "should_pour state = (current_pour state \<noteq> NULL)"

text \<open>
  \<open>refresh\<close>: one evaluation. The second component is the level written to
  the \<open>CTRL\<close> pin (\<open>True\<close> for \<open>HIGH\<close>, the valve open).
\<close>

definition refresh :: "bool \<Rightarrow> ulong \<Rightarrow> bool \<Rightarrow> memory \<Rightarrow> memory \<times> bool" where
  "refresh enabled current_time manual_btn m =
     (let m' = update_state enabled current_time manual_btn m
      in (m', should_pour (program_state m')))"

text \<open>
  What drives the machine: an iteration of \<open>loop\<close> (sample the probe, update
  the debouncer, evaluate), or a change of the manual or enable line, whose
  interrupt handler is \<open>refresh\<close> alone. Each carries the values the
  hardware reads return during it.
\<close>

datatype event =
  Poll int bool ulong bool
| Change bool ulong bool

fun event_time :: "event \<Rightarrow> ulong" where
  "event_time (Poll current_sense enabled current_time manual_btn) = current_time"
| "event_time (Change enabled current_time manual_btn) = current_time"

fun step :: "event \<Rightarrow> memory \<Rightarrow> memory" where
  "step (Poll current_sense enabled current_time manual_btn) m =
     fst (refresh enabled current_time manual_btn
            (m\<lparr>program_state := update_auto_pour current_sense (program_state m)\<rparr>))"
| "step (Change enabled current_time manual_btn) m =
     fst (refresh enabled current_time manual_btn m)"

fun run :: "event list \<Rightarrow> memory \<Rightarrow> memory" where
  "run [] m = m"
| "run (e # es) m = run es (step e m)"

text \<open>The valve stays open after every event of a run.\<close>

fun open_throughout :: "event list \<Rightarrow> memory \<Rightarrow> bool" where
  "open_throughout [] m = True"
| "open_throughout (e # es) m =
     (should_pour (program_state (step e m)) \<and> open_throughout es (step e m))"

subsection \<open>Scenarios\<close>

text \<open>
  Five polls one second apart, each with the dry reading 800, the system
  enabled and the button released: the fifth opens an automatic pour.
\<close>

definition dry_polls :: "event list" where
  "dry_polls =
     [Poll 800 True 0 False, Poll 800 True 1000 False, Poll 800 True 2000 False,
      Poll 800 True 3000 False, Poll 800 True 4000 False]"

text \<open>Eight polls with the wet reading 1000, from 5000 ms to 12000 ms.\<close>

definition wet_polls :: "event list" where
  "wet_polls =
     [Poll 1000 True 5000 False, Poll 1000 True 6000 False, Poll 1000 True 7000 False,
      Poll 1000 True 8000 False, Poll 1000 True 9000 False, Poll 1000 True 10000 False,
      Poll 1000 True 11000 False, Poll 1000 True 12000 False]"

text \<open>The memory after the five dry polls: an automatic pour opened at 4000 ms.\<close>

definition auto_pour_memory :: memory where
  "auto_pour_memory =
     \<lparr>current_pour_obj = \<lparr>manual = False, start = 4000, lockout_start = 4000\<rparr>,
      program_state = \<lparr>current_pour = Addr_current_pour, lockout = False, count = 5,
                       last_raw_reading = 800\<rparr>\<rparr>"

text \<open>The memory after the button is pressed at 0 ms: a manual pour.\<close>

definition manual_pour_memory :: memory where
  "manual_pour_memory =
     \<lparr>current_pour_obj = \<lparr>manual = True, start = 0, lockout_start = 0\<rparr>,
      program_state = \<lparr>current_pour = Addr_current_pour, lockout = False, count = 0,
                       last_raw_reading = 0\<rparr>\<rparr>"

text \<open>The memory after a safety timeout: no pour, locked out.\<close>

definition locked_out_memory :: memory where
  "locked_out_memory =
     \<lparr>current_pour_obj = \<lparr>manual = False, start = 0, lockout_start = 0\<rparr>,
      program_state = \<lparr>current_pour = NULL, lockout = True, count = 0,
                       last_raw_reading = 0\<rparr>\<rparr>"

text \<open>
  The memory inside the poll at 14000 ms, between the debouncer and the
  evaluation, after the five dry polls, the eight wet ones and dry readings
  at 13000 ms and 14000 ms: the automatic pour opened at 4000 ms, counter 2.
\<close>

definition wet_pour_memory :: memory where
  "wet_pour_memory =
     \<lparr>current_pour_obj = \<lparr>manual = False, start = 4000, lockout_start = 4000\<rparr>,
      program_state = \<lparr>current_pour = Addr_current_pour, lockout = False, count = 2,
                       last_raw_reading = 800\<rparr>\<rparr>"

text \<open>
  A manual pour started 296 ms before the millisecond clock wraps to 0.
\<close>

definition late_pour_memory :: memory where
  "late_pour_memory =
     \<lparr>current_pour_obj = \<lparr>manual = True, start = 4294967000, lockout_start = 4294967000\<rparr>,
      program_state = \<lparr>current_pour = Addr_current_pour, lockout = False, count = 0,
                       last_raw_reading = 0\<rparr>\<rparr>"

text \<open>
  The memory inside the fifth dry poll, at 4000 ms, between the debouncer and
  the evaluation: no pour yet, the counter saturated.
\<close>

definition saturated_memory :: memory where
  "saturated_memory =
     \<lparr>current_pour_obj = \<lparr>manual = False, start = 0, lockout_start = 0\<rparr>,
      program_state = \<lparr>current_pour = NULL, lockout = False, count = 5,
                       last_raw_reading = 800\<rparr>\<rparr>"

text \<open>
  An automatic pour whose hysteresis start, 9000 ms, lies after its lockout
  start, 4000 ms; evaluated at 8000 ms it exercises the wraparound test of
  the hysteresis comparison alone.
\<close>

definition skewed_pour_memory :: memory where
  "skewed_pour_memory =
     \<lparr>current_pour_obj = \<lparr>manual = False, start = 9000, lockout_start = 4000\<rparr>,
      program_state = \<lparr>current_pour = Addr_current_pour, lockout = False, count = 2,
                       last_raw_reading = 1000\<rparr>\<rparr>"

section \<open>The debouncer\<close>

lemma uint_count_succ:
  fixes c :: uchar
  assumes "uint c < CONSECUTIVE"
  shows "uint (c + 1) = uint c + 1"
proof -
  have "uint c + uint (1 :: uchar) < 2 ^ size c"
    using assms by (simp add: CONSECUTIVE_def word_size)
  then show ?thesis
    by (simp add: uint_plus_if_size)
qed

text \<open>
  C5. Started with a counter in [0, CONSECUTIVE], the debouncer increments the
  counter on a reading at or below THRESHOLD while the counter is below
  CONSECUTIVE, resets it to 0 on a reading above THRESHOLD, and leaves it as
  it is on a reading at or below THRESHOLD when it equals CONSECUTIVE; in
  every case the new counter is at most CONSECUTIVE.
\<close>

theorem debounce_saturation_and_reset:
  assumes "uint (count state) \<le> CONSECUTIVE"
  shows "(current_sense \<le> THRESHOLD \<and> uint (count state) < CONSECUTIVE \<longrightarrow>
            count (update_auto_pour current_sense state) = count state + 1 \<and>
            uint (count (update_auto_pour current_sense state)) = uint (count state) + 1)
       \<and> (current_sense > THRESHOLD \<longrightarrow>
            count (update_auto_pour current_sense state) = 0)
       \<and> (current_sense \<le> THRESHOLD \<and> uint (count state) = CONSECUTIVE \<longrightarrow>
            count (update_auto_pour current_sense state) = count state)
       \<and> uint (count (update_auto_pour current_sense state)) \<le> CONSECUTIVE"
proof -
  have inc: "uint (count state) < CONSECUTIVE \<Longrightarrow>
             uint (count state + 1) = uint (count state) + 1"
    by (rule uint_count_succ)
  have nonneg: "0 \<le> CONSECUTIVE"
    by (simp add: CONSECUTIVE_def)
  show ?thesis
    using assms inc nonneg by (auto simp: update_auto_pour_def Let_def)
qed

theorem debounce_saturation_and_reset_witness:
  "uint (count \<lparr>current_pour = NULL, lockout = False, count = 4, last_raw_reading = 0\<rparr>)
     \<le> CONSECUTIVE
   \<and> (800 :: int) \<le> THRESHOLD
   \<and> count (update_auto_pour 800
        \<lparr>current_pour = NULL, lockout = False, count = 4, last_raw_reading = 0\<rparr>) = 5
   \<and> (1000 :: int) > THRESHOLD
   \<and> count (update_auto_pour 1000
        \<lparr>current_pour = NULL, lockout = False, count = 4, last_raw_reading = 0\<rparr>) = 0
   \<and> uint (count \<lparr>current_pour = NULL, lockout = False, count = 5, last_raw_reading = 0\<rparr>)
     = CONSECUTIVE
   \<and> count (update_auto_pour 800
        \<lparr>current_pour = NULL, lockout = False, count = 5, last_raw_reading = 0\<rparr>) = 5"
  using
    debounce_saturation_and_reset
      [of "\<lparr>current_pour = NULL, lockout = False, count = 4, last_raw_reading = 0\<rparr>" 800]
    debounce_saturation_and_reset
      [of "\<lparr>current_pour = NULL, lockout = False, count = 4, last_raw_reading = 0\<rparr>" 1000]
    debounce_saturation_and_reset
      [of "\<lparr>current_pour = NULL, lockout = False, count = 5, last_raw_reading = 0\<rparr>" 800]
  by (simp add: CONSECUTIVE_def THRESHOLD_def)

section \<open>Frame and safety lemmas of one evaluation\<close>

lemma update_auto_pour_frame:
  "current_pour (update_auto_pour r s) = current_pour s"
  "lockout (update_auto_pour r s) = lockout s"
  by (simp_all add: update_auto_pour_def Let_def)

lemma update_state_open_bound:
  assumes "current_pour (program_state (update_state en t mb m)) \<noteq> NULL"
  shows "lockout_start (current_pour_obj (update_state en t mb m)) \<le> t \<and>
         t - lockout_start (current_pour_obj (update_state en t mb m))
           < word_of_int LOCKOUT_TIME_MS"
  using assms by (auto simp: update_state_def Let_def LOCKOUT_TIME_MS_def split: if_splits)

lemma update_state_keeps_lockout_start:
  assumes "current_pour (program_state m) \<noteq> NULL"
    and "current_pour (program_state (update_state en t mb m)) \<noteq> NULL"
  shows "lockout_start (current_pour_obj (update_state en t mb m))
           = lockout_start (current_pour_obj m)"
  using assms by (auto simp: update_state_def Let_def split: if_splits)

lemma step_open_bound:
  assumes "should_pour (program_state (step e m))"
  shows "lockout_start (current_pour_obj (step e m)) \<le> event_time e \<and>
         event_time e - lockout_start (current_pour_obj (step e m))
           < word_of_int LOCKOUT_TIME_MS"
  using assms
  by (cases e) (simp_all add: refresh_def Let_def should_pour_def update_state_open_bound)

lemma step_keeps_lockout_start:
  assumes "current_pour (program_state m) \<noteq> NULL"
    and "should_pour (program_state (step e m))"
  shows "lockout_start (current_pour_obj (step e m)) = lockout_start (current_pour_obj m)"
proof (cases e)
  case (Poll r en t mb)
  let ?m = "m\<lparr>program_state := update_auto_pour r (program_state m)\<rparr>"
  have "current_pour (program_state ?m) \<noteq> NULL"
    using assms(1) by (simp add: update_auto_pour_frame)
  moreover have "current_pour (program_state (update_state en t mb ?m)) \<noteq> NULL"
    using assms(2) Poll by (simp add: refresh_def Let_def should_pour_def)
  ultimately have "lockout_start (current_pour_obj (update_state en t mb ?m))
           = lockout_start (current_pour_obj ?m)"
    by (rule update_state_keeps_lockout_start)
  then show ?thesis
    using Poll by (simp add: refresh_def Let_def)
next
  case (Change en t mb)
  then show ?thesis
    using assms update_state_keeps_lockout_start [of m en t mb]
    by (simp add: refresh_def Let_def should_pour_def)
qed

lemma run_snoc: "run (es @ [e]) m = step e (run es m)"
  by (induction es arbitrary: m) simp_all

lemma run_keeps_lockout_start:
  assumes "current_pour (program_state m) \<noteq> NULL" and "open_throughout es m"
  shows "lockout_start (current_pour_obj (run es m)) = lockout_start (current_pour_obj m)
         \<and> current_pour (program_state (run es m)) \<noteq> NULL"
  using assms
proof (induction es arbitrary: m)
  case Nil
  then show ?case by simp
next
  case (Cons e es)
  have opn: "current_pour (program_state (step e m)) \<noteq> NULL"
    using Cons.prems(2) by (simp add: should_pour_def)
  have "lockout_start (current_pour_obj (step e m)) = lockout_start (current_pour_obj m)"
    using Cons.prems by (simp add: step_keeps_lockout_start)
  moreover have "lockout_start (current_pour_obj (run es (step e m)))
                   = lockout_start (current_pour_obj (step e m))
         \<and> current_pour (program_state (run es (step e m))) \<noteq> NULL"
    using Cons.IH [OF opn] Cons.prems(2) by simp
  ultimately show ?case by simp
qed

lemma run_open_bound:
  assumes "es \<noteq> []" and "should_pour (program_state (run es m))"
  shows "lockout_start (current_pour_obj (run es m)) \<le> event_time (last es) \<and>
         event_time (last es) - lockout_start (current_pour_obj (run es m))
           < word_of_int LOCKOUT_TIME_MS"
proof -
  obtain bs e where es: "es = bs @ [e]"
    using assms(1) by (metis append_butlast_last_id)
  show ?thesis
    using assms(2) step_open_bound [of e "run bs m"] by (simp add: es run_snoc)
qed

lemmas constant_defs = THRESHOLD_def CONSECUTIVE_def LOCKOUT_TIME_MS_def HYSTERESIS_TIME_MS_def

lemmas evaluation_defs = refresh_def update_state_def update_auto_pour_def should_pour_def
  Let_def constant_defs

lemmas scenario_defs = initial_memory_def auto_pour_memory_def manual_pour_memory_def
  locked_out_memory_def wet_pour_memory_def late_pour_memory_def
  saturated_memory_def skewed_pour_memory_def
  dry_polls_def wet_polls_def

text \<open>The scenario memories are the ones the program reaches.\<close>

lemma scenarios_reached:
  "run dry_polls initial_memory = auto_pour_memory"
  "run [Change True 0 True] initial_memory = manual_pour_memory"
  "update_state True 30000 True manual_pour_memory = locked_out_memory"
  "update_state True 4294967000 True initial_memory = late_pour_memory"
  "(run [Poll 800 True 0 False, Poll 800 True 1000 False, Poll 800 True 2000 False,
         Poll 800 True 3000 False] initial_memory)
     \<lparr>program_state := update_auto_pour 800 (program_state
        (run [Poll 800 True 0 False, Poll 800 True 1000 False, Poll 800 True 2000 False,
              Poll 800 True 3000 False] initial_memory))\<rparr>
   = saturated_memory"
  "(run (wet_polls @ [Poll 800 True 13000 False]) auto_pour_memory)
     \<lparr>program_state := update_auto_pour 800 (program_state
        (run (wet_polls @ [Poll 800 True 13000 False]) auto_pour_memory))\<rparr>
   = wet_pour_memory"
  by (simp_all add: evaluation_defs scenario_defs)

section \<open>The safety timeout\<close>

text \<open>
  C1, as amended. For every memory with an active pour and every evaluation
  with the enable input true: if \<open>now < lockout_start\<close> or
  \<open>now - lockout_start \<ge> LOCKOUT_TIME_MS\<close>, the evaluation clears the pour,
  sets lockout, resets the debounce counter to 0 and commands the valve
  closed. Every evaluation with the enable input false, from any memory and
  at any time, clears the pour, resets the counter to 0 and commands the
  valve closed, and clears lockout instead of setting it.
  Consequently, across any sequence of polls and line changes: a pour
  that stays open throughout the sequence keeps its \<open>lockout_start\<close>, and at
  the last evaluation less than LOCKOUT_TIME_MS has elapsed since it; and
  whenever the valve is open after a sequence, the open pour is younger than
  LOCKOUT_TIME_MS at the last evaluation.
\<close>

theorem no_flood:
  "(current_pour (program_state m) \<noteq> NULL \<and> enabled \<and>
      (t < lockout_start (current_pour_obj m)
       \<or> t - lockout_start (current_pour_obj m) \<ge> word_of_int LOCKOUT_TIME_MS) \<longrightarrow>
      current_pour (program_state (fst (refresh enabled t mb m))) = NULL \<and>
      lockout (program_state (fst (refresh enabled t mb m))) \<and>
      count (program_state (fst (refresh enabled t mb m))) = 0 \<and>
      \<not> snd (refresh enabled t mb m))
   \<and> (current_pour (program_state m) \<noteq> NULL \<and> es \<noteq> [] \<and> open_throughout es m \<longrightarrow>
      lockout_start (current_pour_obj (run es m)) = lockout_start (current_pour_obj m) \<and>
      lockout_start (current_pour_obj m) \<le> event_time (last es) \<and>
      event_time (last es) - lockout_start (current_pour_obj m)
        < word_of_int LOCKOUT_TIME_MS)
   \<and> (es \<noteq> [] \<and> should_pour (program_state (run es m)) \<longrightarrow>
      lockout_start (current_pour_obj (run es m)) \<le> event_time (last es) \<and>
      event_time (last es) - lockout_start (current_pour_obj (run es m))
        < word_of_int LOCKOUT_TIME_MS)
   \<and> (\<not> enabled \<longrightarrow>
      current_pour (program_state (fst (refresh enabled t mb m))) = NULL \<and>
      \<not> lockout (program_state (fst (refresh enabled t mb m))) \<and>
      count (program_state (fst (refresh enabled t mb m))) = 0 \<and>
      \<not> snd (refresh enabled t mb m))"
proof (intro conjI impI)
  assume h: "current_pour (program_state m) \<noteq> NULL \<and> enabled \<and>
      (t < lockout_start (current_pour_obj m)
       \<or> t - lockout_start (current_pour_obj m) \<ge> word_of_int LOCKOUT_TIME_MS)"
  then show "current_pour (program_state (fst (refresh enabled t mb m))) = NULL"
    and "lockout (program_state (fst (refresh enabled t mb m)))"
    and "count (program_state (fst (refresh enabled t mb m))) = 0"
    and "\<not> snd (refresh enabled t mb m)"
    by (auto simp: refresh_def update_state_def should_pour_def Let_def)
next
  assume h: "current_pour (program_state m) \<noteq> NULL \<and> es \<noteq> [] \<and> open_throughout es m"
  then have keep: "lockout_start (current_pour_obj (run es m)) = lockout_start (current_pour_obj m)"
    and opn: "should_pour (program_state (run es m))"
    using run_keeps_lockout_start [of m es] by (simp_all add: should_pour_def)
  from h opn have bound: "lockout_start (current_pour_obj (run es m)) \<le> event_time (last es) \<and>
      event_time (last es) - lockout_start (current_pour_obj (run es m))
        < word_of_int LOCKOUT_TIME_MS"
    by (simp add: run_open_bound)
  show "lockout_start (current_pour_obj (run es m)) = lockout_start (current_pour_obj m)"
    by (rule keep)
  show "lockout_start (current_pour_obj m) \<le> event_time (last es)"
    using bound keep by simp
  show "event_time (last es) - lockout_start (current_pour_obj m) < word_of_int LOCKOUT_TIME_MS"
    using bound keep by simp
next
  assume h: "es \<noteq> [] \<and> should_pour (program_state (run es m))"
  then show "lockout_start (current_pour_obj (run es m)) \<le> event_time (last es)"
    and "event_time (last es) - lockout_start (current_pour_obj (run es m))
        < word_of_int LOCKOUT_TIME_MS"
    by (simp_all add: run_open_bound)
next
  assume off: "\<not> enabled"
  then show "current_pour (program_state (fst (refresh enabled t mb m))) = NULL"
    and "\<not> lockout (program_state (fst (refresh enabled t mb m)))"
    and "count (program_state (fst (refresh enabled t mb m))) = 0"
    and "\<not> snd (refresh enabled t mb m)"
    by (simp_all add: refresh_def update_state_def should_pour_def Let_def)
qed

text \<open>
  An instance: the manual pour started at 0 ms is force-closed at 30000 ms with
  the button still held; the automatic pour started at 4000 ms stays open
  through a re-arm and a button press and keeps its \<open>lockout_start\<close>;
  with the enable input off at 30000 ms the manual pour is closed, the
  counter is 0 and lockout is not set, and the locked-out memory loses its
  lockout.
\<close>

theorem no_flood_witness:
  "current_pour (program_state manual_pour_memory) \<noteq> NULL
   \<and> (30000 :: ulong) - lockout_start (current_pour_obj manual_pour_memory)
       \<ge> word_of_int LOCKOUT_TIME_MS
   \<and> current_pour (program_state (fst (refresh True 30000 True manual_pour_memory))) = NULL
   \<and> lockout (program_state (fst (refresh True 30000 True manual_pour_memory)))
   \<and> \<not> snd (refresh True 30000 True manual_pour_memory)
   \<and> current_pour (program_state auto_pour_memory) \<noteq> NULL
   \<and> open_throughout
        [Poll 800 True 5000 False, Change True 5500 True, Poll 1000 True 6000 True]
        auto_pour_memory
   \<and> lockout_start (current_pour_obj (run
        [Poll 800 True 5000 False, Change True 5500 True, Poll 1000 True 6000 True]
        auto_pour_memory)) = 4000
   \<and> (6000 :: ulong) - 4000 < word_of_int LOCKOUT_TIME_MS
   \<and> current_pour (program_state (fst (refresh False 30000 True manual_pour_memory))) = NULL
   \<and> \<not> lockout (program_state (fst (refresh False 30000 True manual_pour_memory)))
   \<and> count (program_state (fst (refresh False 30000 True manual_pour_memory))) = 0
   \<and> \<not> snd (refresh False 30000 True manual_pour_memory)
   \<and> \<not> lockout (program_state (fst (refresh False 31000 False locked_out_memory)))"
  using
    no_flood [where m = manual_pour_memory and enabled = False and t = 30000 and mb = True
      and es = "[Poll 1000 True 1000 True]"]
    no_flood [where m = locked_out_memory and enabled = False and t = 31000 and mb = False
      and es = "[Poll 1000 True 1000 True]"]
    no_flood [where m = manual_pour_memory and enabled = True and t = 30000 and mb = True
      and es = "[Poll 1000 True 1000 True]"]
    no_flood [where m = auto_pour_memory and enabled = True and t = 30000 and mb = True
      and es = "[Poll 800 True 5000 False, Change True 5500 True, Poll 1000 True 6000 True]"]
  by (simp add: evaluation_defs scenario_defs)

text \<open>
  The enable input is needed: switched off at 30000 ms, the manual pour
  started at 0 ms is closed by the disabled branch, which clears lockout
  instead of setting it.
\<close>

theorem no_flood_counterexample:
  "run [Change True 0 True] initial_memory = manual_pour_memory
   \<and> current_pour (program_state manual_pour_memory) \<noteq> NULL
   \<and> (30000 :: ulong) - lockout_start (current_pour_obj manual_pour_memory)
       \<ge> word_of_int LOCKOUT_TIME_MS
   \<and> current_pour (program_state (fst (refresh False 30000 True manual_pour_memory))) = NULL
   \<and> \<not> lockout (program_state (fst (refresh False 30000 True manual_pour_memory)))
   \<and> count (program_state (fst (refresh False 30000 True manual_pour_memory))) = 0
   \<and> \<not> snd (refresh False 30000 True manual_pour_memory)"
  by (simp add: evaluation_defs scenario_defs)

section \<open>Lockout\<close>

text \<open>
  C2. From every memory with lockout set, an evaluation with the enable input
  true leaves lockout set, the pour absent and the valve closed, whatever the
  button and the sensor read; an evaluation with the enable input false clears
  lockout; and lockout is cleared only by an evaluation with the enable input
  false.
\<close>

theorem lockout_recovery:
  assumes "lockout (program_state m)"
  shows "(enabled \<longrightarrow>
            lockout (program_state (fst (refresh enabled t mb m))) \<and>
            current_pour (program_state (fst (refresh enabled t mb m))) = NULL \<and>
            \<not> snd (refresh enabled t mb m) \<and>
            lockout (program_state (step (Poll r enabled t mb) m)) \<and>
            current_pour (program_state (step (Poll r enabled t mb) m)) = NULL \<and>
            \<not> should_pour (program_state (step (Poll r enabled t mb) m)))
       \<and> (\<not> enabled \<longrightarrow>
            \<not> lockout (program_state (fst (refresh enabled t mb m))) \<and>
            \<not> lockout (program_state (step (Poll r enabled t mb) m)))
       \<and> (\<not> lockout (program_state (fst (refresh enabled t mb m))) \<longrightarrow> \<not> enabled)
       \<and> (\<not> lockout (program_state (step (Poll r enabled t mb) m)) \<longrightarrow> \<not> enabled)"
  using assms
  by (auto simp: refresh_def update_state_def should_pour_def Let_def update_auto_pour_frame)

theorem lockout_recovery_witness:
  "lockout (program_state locked_out_memory)
   \<and> lockout (program_state (fst (refresh True 31000 True locked_out_memory)))
   \<and> current_pour (program_state (fst (refresh True 31000 True locked_out_memory))) = NULL
   \<and> \<not> snd (refresh True 31000 True locked_out_memory)
   \<and> lockout (program_state (step (Poll 800 True 31000 True) locked_out_memory))
   \<and> \<not> lockout (program_state (fst (refresh False 31000 True locked_out_memory)))
   \<and> \<not> lockout (program_state (step (Poll 800 False 31000 True) locked_out_memory))"
  using
    lockout_recovery [where m = locked_out_memory and enabled = True and t = 31000
      and mb = True and r = 800]
    lockout_recovery [where m = locked_out_memory and enabled = False and t = 31000
      and mb = True and r = 800]
  by (simp add: evaluation_defs scenario_defs)

section \<open>The counter when a pour stops\<close>

text \<open>
  C3, as amended. When an evaluation goes from an active pour to no pour, the
  debounce counter is reset to 0 if the cause is the disabled or locked-out
  guard or the safety timeout. Otherwise the button is released, the counter
  is below CONSECUTIVE, the pour was manual or its hysteresis interval has
  expired, and the counter keeps its value.
\<close>

theorem debounce_reset_on_stop:
  assumes "current_pour (program_state m) \<noteq> NULL"
    and "current_pour (program_state (update_state enabled t mb m)) = NULL"
  shows "(\<not> enabled \<or> lockout (program_state m)
            \<or> t < lockout_start (current_pour_obj m)
            \<or> t - lockout_start (current_pour_obj m) \<ge> word_of_int LOCKOUT_TIME_MS \<longrightarrow>
          count (program_state (update_state enabled t mb m)) = 0)
       \<and> (enabled \<and> \<not> lockout (program_state m)
            \<and> \<not> (t < lockout_start (current_pour_obj m)
                 \<or> t - lockout_start (current_pour_obj m) \<ge> word_of_int LOCKOUT_TIME_MS) \<longrightarrow>
          \<not> mb \<and> uint (count (program_state m)) < CONSECUTIVE \<and>
          (manual (current_pour_obj m)
             \<or> t < start (current_pour_obj m)
             \<or> t - start (current_pour_obj m) \<ge> word_of_int HYSTERESIS_TIME_MS) \<and>
          count (program_state (update_state enabled t mb m)) = count (program_state m))"
  using assms by (auto simp: update_state_def Let_def split: if_splits)

text \<open>
  An instance of each kind: the manual pour stopped by disabling, counter 0;
  the automatic pour stopped by the hysteresis, counter still 2.
\<close>

theorem debounce_reset_on_stop_witness:
  "current_pour (program_state manual_pour_memory) \<noteq> NULL
   \<and> current_pour (program_state (update_state False 1000 True manual_pour_memory)) = NULL
   \<and> count (program_state (update_state False 1000 True manual_pour_memory)) = 0
   \<and> current_pour (program_state wet_pour_memory) \<noteq> NULL
   \<and> \<not> lockout (program_state wet_pour_memory)
   \<and> lockout_start (current_pour_obj wet_pour_memory) \<le> 14000
   \<and> (14000 :: ulong) - lockout_start (current_pour_obj wet_pour_memory)
       < word_of_int LOCKOUT_TIME_MS
   \<and> current_pour (program_state (update_state True 14000 False wet_pour_memory)) = NULL
   \<and> (14000 :: ulong) - start (current_pour_obj wet_pour_memory)
       \<ge> word_of_int HYSTERESIS_TIME_MS
   \<and> count (program_state (update_state True 14000 False wet_pour_memory)) = 2"
  using
    debounce_reset_on_stop [where m = manual_pour_memory and enabled = False and t = 1000
      and mb = True]
    debounce_reset_on_stop [where m = wet_pour_memory and enabled = True and t = 14000
      and mb = False]
  by (simp add: evaluation_defs scenario_defs)

text \<open>
  From the initial memory: five dry polls open an automatic pour at 4000 ms,
  eight wet polls follow, then a dry reading at 13000 ms and one at 14000 ms.
  The evaluation at 14000 ms stops the pour by the hysteresis and leaves the
  counter at 2.
\<close>

theorem debounce_reset_on_stop_counterexample:
  "run (dry_polls @ wet_polls @ [Poll 800 True 13000 False]) initial_memory
     = \<lparr>current_pour_obj = \<lparr>manual = False, start = 4000, lockout_start = 4000\<rparr>,
        program_state = \<lparr>current_pour = Addr_current_pour, lockout = False, count = 1,
                         last_raw_reading = 800\<rparr>\<rparr>
   \<and> (run (dry_polls @ wet_polls @ [Poll 800 True 13000 False]) initial_memory)
        \<lparr>program_state := update_auto_pour 800 (program_state
           (run (dry_polls @ wet_polls @ [Poll 800 True 13000 False]) initial_memory))\<rparr>
     = wet_pour_memory
   \<and> current_pour (program_state wet_pour_memory) \<noteq> NULL
   \<and> current_pour (program_state (update_state True 14000 False wet_pour_memory)) = NULL
   \<and> count (program_state (update_state True 14000 False wet_pour_memory)) = 2"
  by (simp add: evaluation_defs scenario_defs)

section \<open>Invariants of the state\<close>

text \<open>
  C4. After every evaluation, from any memory and with any inputs: lockout
  set implies that no pour is active, and an active pour implies that lockout
  is not set and that the enable input was true at this evaluation.
\<close>

theorem state_invariants:
  "(lockout (program_state (update_state enabled t mb m)) \<longrightarrow>
      current_pour (program_state (update_state enabled t mb m)) = NULL)
   \<and> (current_pour (program_state (update_state enabled t mb m)) \<noteq> NULL \<longrightarrow>
      \<not> lockout (program_state (update_state enabled t mb m)) \<and> enabled)"
  by (auto simp: update_state_def Let_def split: if_splits)

theorem state_invariants_witness:
  "lockout (program_state (update_state True 30000 True manual_pour_memory))
   \<and> current_pour (program_state (update_state True 30000 True manual_pour_memory)) = NULL
   \<and> current_pour (program_state (update_state True 0 True initial_memory)) \<noteq> NULL
   \<and> \<not> lockout (program_state (update_state True 0 True initial_memory))"
  using
    state_invariants [where m = manual_pour_memory and enabled = True and t = 30000
      and mb = True]
    state_invariants [where m = initial_memory and enabled = True and t = 0 and mb = True]
  by (simp add: evaluation_defs scenario_defs)

section \<open>Hysteresis\<close>

lemma wet_poll_in_window:
  assumes "\<not> lockout (program_state m)" and "current_pour (program_state m) \<noteq> NULL"
    and "\<not> manual (current_pour_obj m)"
    and "lockout_start (current_pour_obj m) \<le> t"
    and "t - lockout_start (current_pour_obj m) < word_of_int LOCKOUT_TIME_MS"
    and "r > THRESHOLD"
    and "start (current_pour_obj m) \<le> t"
    and "t - start (current_pour_obj m) < word_of_int HYSTERESIS_TIME_MS"
  shows "step (Poll r True t False) m
           = m\<lparr>program_state := (program_state m)\<lparr>last_raw_reading := r, count := 0\<rparr>\<rparr>"
  using assms
  by (simp add: refresh_def update_state_def update_auto_pour_def Let_def CONSECUTIVE_def
      not_less [symmetric])

lemma wet_polls_in_window:
  assumes "\<not> lockout (program_state m)" and "current_pour (program_state m) \<noteq> NULL"
    and "\<not> manual (current_pour_obj m)"
    and "\<forall>e \<in> set es. \<exists>r t. e = Poll r True t False \<and> r > THRESHOLD
           \<and> lockout_start (current_pour_obj m) \<le> t
           \<and> t - lockout_start (current_pour_obj m) < word_of_int LOCKOUT_TIME_MS
           \<and> start (current_pour_obj m) \<le> t
           \<and> t - start (current_pour_obj m) < word_of_int HYSTERESIS_TIME_MS"
  shows "current_pour_obj (run es m) = current_pour_obj m
         \<and> current_pour (program_state (run es m)) \<noteq> NULL
         \<and> \<not> lockout (program_state (run es m))"
  using assms
proof (induction es arbitrary: m)
  case Nil
  then show ?case by simp
next
  case (Cons e es)
  from Cons.prems(4) obtain r t where e: "e = Poll r True t False" and r: "r > THRESHOLD"
    and w: "lockout_start (current_pour_obj m) \<le> t"
      "t - lockout_start (current_pour_obj m) < word_of_int LOCKOUT_TIME_MS"
      "start (current_pour_obj m) \<le> t"
      "t - start (current_pour_obj m) < word_of_int HYSTERESIS_TIME_MS"
    by auto
  let ?m = "m\<lparr>program_state := (program_state m)\<lparr>last_raw_reading := r, count := 0\<rparr>\<rparr>"
  have st: "step e m = ?m"
    unfolding e using Cons.prems(1-3) w(1,2) r w(3,4) by (rule wet_poll_in_window)
  have "current_pour_obj (run es ?m) = current_pour_obj ?m
         \<and> current_pour (program_state (run es ?m)) \<noteq> NULL
         \<and> \<not> lockout (program_state (run es ?m))"
    using Cons.prems by (intro Cons.IH) simp_all
  then show ?case
    by (simp add: st)
qed

text \<open>
  C6, as amended. Take an active automatic pour, not locked out, evaluated
  with the system enabled and the button released at a time at which the
  safety timeout does not fire. In the wet branch (counter below CONSECUTIVE)
  an evaluation with \<open>hysteresis_start \<le> now\<close> and
  \<open>now - hysteresis_start < HYSTERESIS_TIME_MS\<close> leaves the whole memory
  unchanged and the valve open, and one with \<open>now < hysteresis_start\<close> or
  \<open>now - hysteresis_start \<ge> HYSTERESIS_TIME_MS\<close> clears the pour and closes
  the valve. The same holds for a whole poll whose reading is above
  THRESHOLD, and a sequence of such polls inside the interval keeps the pour
  as it is. The interval runs from \<open>hysteresis_start\<close>, the time of the last
  evaluation that found the counter saturated, not from the first wet reading.
\<close>

theorem hysteresis_overshoot:
  assumes "\<not> lockout (program_state m)" and "current_pour (program_state m) \<noteq> NULL"
    and "\<not> manual (current_pour_obj m)"
    and "lockout_start (current_pour_obj m) \<le> t"
    and "t - lockout_start (current_pour_obj m) < word_of_int LOCKOUT_TIME_MS"
  shows "(uint (count (program_state m)) < CONSECUTIVE
            \<and> start (current_pour_obj m) \<le> t
            \<and> t - start (current_pour_obj m) < word_of_int HYSTERESIS_TIME_MS \<longrightarrow>
          update_state True t False m = m \<and> snd (refresh True t False m))
       \<and> (uint (count (program_state m)) < CONSECUTIVE
            \<and> (t < start (current_pour_obj m)
                \<or> t - start (current_pour_obj m) \<ge> word_of_int HYSTERESIS_TIME_MS) \<longrightarrow>
          current_pour (program_state (update_state True t False m)) = NULL
            \<and> \<not> snd (refresh True t False m))
       \<and> (r > THRESHOLD
            \<and> start (current_pour_obj m) \<le> t
            \<and> t - start (current_pour_obj m) < word_of_int HYSTERESIS_TIME_MS \<longrightarrow>
          current_pour_obj (step (Poll r True t False) m) = current_pour_obj m
            \<and> should_pour (program_state (step (Poll r True t False) m)))
       \<and> (r > THRESHOLD
            \<and> (t < start (current_pour_obj m)
                \<or> t - start (current_pour_obj m) \<ge> word_of_int HYSTERESIS_TIME_MS) \<longrightarrow>
          \<not> should_pour (program_state (step (Poll r True t False) m)))
       \<and> ((\<forall>e \<in> set es. \<exists>r' t'. e = Poll r' True t' False \<and> r' > THRESHOLD
              \<and> lockout_start (current_pour_obj m) \<le> t'
              \<and> t' - lockout_start (current_pour_obj m) < word_of_int LOCKOUT_TIME_MS
              \<and> start (current_pour_obj m) \<le> t'
              \<and> t' - start (current_pour_obj m) < word_of_int HYSTERESIS_TIME_MS) \<longrightarrow>
          current_pour_obj (run es m) = current_pour_obj m
            \<and> should_pour (program_state (run es m)))"
proof (intro conjI impI)
  assume "uint (count (program_state m)) < CONSECUTIVE
            \<and> start (current_pour_obj m) \<le> t
            \<and> t - start (current_pour_obj m) < word_of_int HYSTERESIS_TIME_MS"
  then show "update_state True t False m = m" and "snd (refresh True t False m)"
    using assms
    by (simp_all add: refresh_def update_state_def should_pour_def Let_def not_less [symmetric])
next
  assume "uint (count (program_state m)) < CONSECUTIVE
            \<and> (t < start (current_pour_obj m)
                \<or> t - start (current_pour_obj m) \<ge> word_of_int HYSTERESIS_TIME_MS)"
  then show "current_pour (program_state (update_state True t False m)) = NULL"
    and "\<not> snd (refresh True t False m)"
    using assms
    by (auto simp: refresh_def update_state_def should_pour_def Let_def not_less [symmetric])
next
  assume h: "r > THRESHOLD
            \<and> start (current_pour_obj m) \<le> t
            \<and> t - start (current_pour_obj m) < word_of_int HYSTERESIS_TIME_MS"
  then have "step (Poll r True t False) m
           = m\<lparr>program_state := (program_state m)\<lparr>last_raw_reading := r, count := 0\<rparr>\<rparr>"
    using assms by (intro wet_poll_in_window) simp_all
  then show "current_pour_obj (step (Poll r True t False) m) = current_pour_obj m"
    and "should_pour (program_state (step (Poll r True t False) m))"
    using assms(2) by (simp_all add: should_pour_def)
next
  assume "r > THRESHOLD
            \<and> (t < start (current_pour_obj m)
                \<or> t - start (current_pour_obj m) \<ge> word_of_int HYSTERESIS_TIME_MS)"
  then show "\<not> should_pour (program_state (step (Poll r True t False) m))"
    using assms
    by (auto simp: refresh_def update_state_def update_auto_pour_def should_pour_def Let_def
        CONSECUTIVE_def not_less [symmetric])
next
  assume "\<forall>e \<in> set es. \<exists>r' t'. e = Poll r' True t' False \<and> r' > THRESHOLD
              \<and> lockout_start (current_pour_obj m) \<le> t'
              \<and> t' - lockout_start (current_pour_obj m) < word_of_int LOCKOUT_TIME_MS
              \<and> start (current_pour_obj m) \<le> t'
              \<and> t' - start (current_pour_obj m) < word_of_int HYSTERESIS_TIME_MS"
  then have "current_pour_obj (run es m) = current_pour_obj m
         \<and> current_pour (program_state (run es m)) \<noteq> NULL
         \<and> \<not> lockout (program_state (run es m))"
    using assms(1-3) by (intro wet_polls_in_window) simp_all
  then show "current_pour_obj (run es m) = current_pour_obj m"
    and "should_pour (program_state (run es m))"
    by (simp_all add: should_pour_def)
qed

text \<open>
  An instance: the automatic pour with hysteresis start 4000 ms is kept at
  13000 ms and closed at 14000 ms, and the eight wet polls leave it as it is.
\<close>

theorem hysteresis_overshoot_witness:
  "\<not> lockout (program_state wet_pour_memory)
   \<and> current_pour (program_state wet_pour_memory) \<noteq> NULL
   \<and> \<not> manual (current_pour_obj wet_pour_memory)
   \<and> uint (count (program_state wet_pour_memory)) < CONSECUTIVE
   \<and> (13000 :: ulong) - start (current_pour_obj wet_pour_memory)
        < word_of_int HYSTERESIS_TIME_MS
   \<and> update_state True 13000 False wet_pour_memory = wet_pour_memory
   \<and> should_pour (program_state (step (Poll 1000 True 13000 False) wet_pour_memory))
   \<and> (14000 :: ulong) - start (current_pour_obj wet_pour_memory)
        \<ge> word_of_int HYSTERESIS_TIME_MS
   \<and> (14000 :: ulong) - lockout_start (current_pour_obj wet_pour_memory)
        < word_of_int LOCKOUT_TIME_MS
   \<and> current_pour (program_state (update_state True 14000 False wet_pour_memory)) = NULL
   \<and> \<not> should_pour (program_state (step (Poll 1000 True 14000 False) wet_pour_memory))
   \<and> current_pour_obj (run wet_polls auto_pour_memory) = current_pour_obj auto_pour_memory
   \<and> should_pour (program_state (run wet_polls auto_pour_memory))"
  using
    hysteresis_overshoot [where m = wet_pour_memory and t = 13000 and r = 1000 and es = "[]"]
    hysteresis_overshoot [where m = wet_pour_memory and t = 14000 and r = 1000 and es = "[]"]
    hysteresis_overshoot [where m = auto_pour_memory and t = 5000 and r = 1000
      and es = wet_polls]
  by (simp add: evaluation_defs scenario_defs)

text \<open>
  Measured from the first wet reading the interval is shorter. From the initial
  memory, five dry polls open an automatic pour at 4000 ms; the readings are
  wet from T = 5000 ms on, with no button press and no timeout. The
  evaluation at 14000 ms, before T + HYSTERESIS_TIME_MS = 15000 ms, closes
  the valve.
\<close>

theorem hysteresis_overshoot_counterexample:
  "run dry_polls initial_memory = auto_pour_memory
   \<and> current_pour (program_state auto_pour_memory) \<noteq> NULL
   \<and> \<not> manual (current_pour_obj auto_pour_memory)
   \<and> hd wet_polls = Poll 1000 True 5000 False
   \<and> should_pour (program_state
        (run (dry_polls @ wet_polls @ [Poll 1000 True 13000 False]) initial_memory))
   \<and> (14000 :: ulong) < 5000 + word_of_int HYSTERESIS_TIME_MS
   \<and> (14000 :: ulong) - lockout_start (current_pour_obj auto_pour_memory)
        < word_of_int LOCKOUT_TIME_MS
   \<and> \<not> should_pour (program_state
        (run (dry_polls @ wet_polls @ [Poll 1000 True 13000 False, Poll 1000 True 14000 False])
           initial_memory))"
  by (simp add: evaluation_defs scenario_defs)

section \<open>The manual button\<close>

text \<open>
  C7. With the system enabled, lockout not set and no safety timeout due, an
  evaluation with the button held commands the valve open and resets the
  debounce counter to 0, whatever the counter and the sensor reading: with
  no pour active it creates one with \<open>manual\<close> set and both timestamps equal
  to now; with a pour active it sets \<open>manual\<close> and leaves both timestamps.
\<close>

theorem manual_priority:
  assumes "\<not> lockout (program_state m)"
    and "current_pour (program_state m) \<noteq> NULL \<longrightarrow>
           \<not> (t < lockout_start (current_pour_obj m)
              \<or> t - lockout_start (current_pour_obj m) \<ge> word_of_int LOCKOUT_TIME_MS)"
  shows "snd (refresh True t True m)
       \<and> count (program_state (fst (refresh True t True m))) = 0
       \<and> (current_pour (program_state m) = NULL \<longrightarrow>
            current_pour_obj (fst (refresh True t True m))
              = \<lparr>manual = True, start = t, lockout_start = t\<rparr>)
       \<and> (current_pour (program_state m) \<noteq> NULL \<longrightarrow>
            manual (current_pour_obj (fst (refresh True t True m)))
            \<and> start (current_pour_obj (fst (refresh True t True m)))
                = start (current_pour_obj m)
            \<and> lockout_start (current_pour_obj (fst (refresh True t True m)))
                = lockout_start (current_pour_obj m))
       \<and> should_pour (program_state (step (Poll r True t True) m))
       \<and> count (program_state (step (Poll r True t True) m)) = 0"
  using assms
  by (auto simp: refresh_def update_state_def should_pour_def Let_def update_auto_pour_frame)

text \<open>
  An instance of each case: a press at 7 ms from the initial memory, and a
  press at 5000 ms during the automatic pour opened at 4000 ms.
\<close>

theorem manual_priority_witness:
  "\<not> lockout (program_state initial_memory)
   \<and> current_pour (program_state initial_memory) = NULL
   \<and> snd (refresh True 7 True initial_memory)
   \<and> current_pour_obj (fst (refresh True 7 True initial_memory))
        = \<lparr>manual = True, start = 7, lockout_start = 7\<rparr>
   \<and> \<not> lockout (program_state auto_pour_memory)
   \<and> current_pour (program_state auto_pour_memory) \<noteq> NULL
   \<and> (5000 :: ulong) \<ge> lockout_start (current_pour_obj auto_pour_memory)
   \<and> (5000 :: ulong) - lockout_start (current_pour_obj auto_pour_memory)
        < word_of_int LOCKOUT_TIME_MS
   \<and> snd (refresh True 5000 True auto_pour_memory)
   \<and> count (program_state (fst (refresh True 5000 True auto_pour_memory))) = 0
   \<and> current_pour_obj (fst (refresh True 5000 True auto_pour_memory))
        = \<lparr>manual = True, start = 4000, lockout_start = 4000\<rparr>"
  using
    manual_priority [where m = initial_memory and t = 7 and r = 800]
    manual_priority [where m = auto_pour_memory and t = 5000 and r = 800]
  by (simp add: evaluation_defs scenario_defs)

section \<open>Clock wraparound\<close>

text \<open>
  C8. Where update_state reaches the lockout comparison (enabled, not locked
  out, a pour active), \<open>now < lockout_start\<close> counts as expired: the pour is
  closed and lockout set. Where it evaluates an automatic pour in the wet
  branch (in addition: button released, counter below CONSECUTIVE, pour
  automatic), \<open>now < hysteresis_start\<close> counts as expired: the pour is closed,
  by the hysteresis comparison when the safety timeout has not fired before
  it.
\<close>

theorem wraparound_fail_safe:
  assumes "\<not> lockout (program_state m)" and "current_pour (program_state m) \<noteq> NULL"
  shows "(t < lockout_start (current_pour_obj m) \<longrightarrow>
            current_pour (program_state (update_state True t mb m)) = NULL
            \<and> lockout (program_state (update_state True t mb m))
            \<and> \<not> snd (refresh True t mb m))
       \<and> (\<not> manual (current_pour_obj m)
            \<and> uint (count (program_state m)) < CONSECUTIVE
            \<and> t < start (current_pour_obj m) \<longrightarrow>
            current_pour (program_state (update_state True t False m)) = NULL
            \<and> \<not> snd (refresh True t False m))"
  using assms
  by (auto simp: refresh_def update_state_def should_pour_def Let_def)

text \<open>
  An instance of each comparison: the manual pour started 296 ms before the
  clock wraps, evaluated 704 ms after the wrap, is locked out; the automatic
  pour with hysteresis start 9000 ms, evaluated at 8000 ms, is closed.
\<close>

theorem wraparound_fail_safe_witness:
  "\<not> lockout (program_state late_pour_memory)
   \<and> current_pour (program_state late_pour_memory) \<noteq> NULL
   \<and> (704 :: ulong) < lockout_start (current_pour_obj late_pour_memory)
   \<and> current_pour (program_state (update_state True 704 True late_pour_memory)) = NULL
   \<and> lockout (program_state (update_state True 704 True late_pour_memory))
   \<and> \<not> lockout (program_state skewed_pour_memory)
   \<and> current_pour (program_state skewed_pour_memory) \<noteq> NULL
   \<and> \<not> manual (current_pour_obj skewed_pour_memory)
   \<and> uint (count (program_state skewed_pour_memory)) < CONSECUTIVE
   \<and> lockout_start (current_pour_obj skewed_pour_memory) \<le> 8000
   \<and> (8000 :: ulong) - lockout_start (current_pour_obj skewed_pour_memory)
        < word_of_int LOCKOUT_TIME_MS
   \<and> (8000 :: ulong) < start (current_pour_obj skewed_pour_memory)
   \<and> current_pour (program_state (update_state True 8000 False skewed_pour_memory)) = NULL
   \<and> \<not> lockout (program_state (update_state True 8000 False skewed_pour_memory))"
  using
    wraparound_fail_safe [where m = late_pour_memory and t = 704 and mb = True]
    wraparound_fail_safe [where m = skewed_pour_memory and t = 8000 and mb = False]
  by (simp add: evaluation_defs scenario_defs)

section \<open>The lockout start of a pour\<close>

text \<open>
  C9. An evaluation that finds a pour active and leaves a pour active leaves
  its \<open>lockout_start\<close> unchanged, whatever the inputs (manual marking and
  refreshes of the hysteresis start included); the same holds for a whole
  poll or line change. An evaluation that creates a pour sets its
  \<open>lockout_start\<close> to now, and an active pour whose \<open>lockout_start\<close> differs
  from the value before the evaluation was created by that evaluation. The
  field of the global object is written in two places only: set to now when
  a pour is created, and zeroed when the pour stops and is no longer active.
\<close>

theorem lockout_start_immutable:
  "(current_pour (program_state m) \<noteq> NULL
      \<and> current_pour (program_state (update_state enabled t mb m)) \<noteq> NULL \<longrightarrow>
      lockout_start (current_pour_obj (update_state enabled t mb m))
        = lockout_start (current_pour_obj m))
   \<and> (current_pour (program_state m) = NULL
      \<and> current_pour (program_state (update_state enabled t mb m)) \<noteq> NULL \<longrightarrow>
      lockout_start (current_pour_obj (update_state enabled t mb m)) = t)
   \<and> (current_pour (program_state (update_state enabled t mb m)) \<noteq> NULL
      \<and> lockout_start (current_pour_obj (update_state enabled t mb m))
           \<noteq> lockout_start (current_pour_obj m) \<longrightarrow>
      current_pour (program_state m) = NULL)
   \<and> (current_pour (program_state m) \<noteq> NULL
      \<and> should_pour (program_state (step e m)) \<longrightarrow>
      lockout_start (current_pour_obj (step e m)) = lockout_start (current_pour_obj m))
   \<and> (lockout_start (current_pour_obj (update_state enabled t mb m))
        \<noteq> lockout_start (current_pour_obj m) \<longrightarrow>
      current_pour (program_state m) = NULL
        \<and> current_pour (program_state (update_state enabled t mb m)) \<noteq> NULL
        \<and> lockout_start (current_pour_obj (update_state enabled t mb m)) = t
      \<or> current_pour (program_state m) \<noteq> NULL
        \<and> current_pour (program_state (update_state enabled t mb m)) = NULL
        \<and> lockout_start (current_pour_obj (update_state enabled t mb m)) = 0)"
proof (intro conjI impI)
  assume "current_pour (program_state m) \<noteq> NULL
      \<and> current_pour (program_state (update_state enabled t mb m)) \<noteq> NULL"
  then show "lockout_start (current_pour_obj (update_state enabled t mb m))
        = lockout_start (current_pour_obj m)"
    by (simp add: update_state_keeps_lockout_start)
next
  assume "current_pour (program_state m) = NULL
      \<and> current_pour (program_state (update_state enabled t mb m)) \<noteq> NULL"
  then show "lockout_start (current_pour_obj (update_state enabled t mb m)) = t"
    by (auto simp: update_state_def Let_def split: if_splits)
next
  assume "current_pour (program_state (update_state enabled t mb m)) \<noteq> NULL
      \<and> lockout_start (current_pour_obj (update_state enabled t mb m))
           \<noteq> lockout_start (current_pour_obj m)"
  then show "current_pour (program_state m) = NULL"
    using update_state_keeps_lockout_start [of m enabled t mb] by blast
next
  assume "current_pour (program_state m) \<noteq> NULL
      \<and> should_pour (program_state (step e m))"
  then show "lockout_start (current_pour_obj (step e m)) = lockout_start (current_pour_obj m)"
    by (simp add: step_keeps_lockout_start)
next
  assume "lockout_start (current_pour_obj (update_state enabled t mb m))
        \<noteq> lockout_start (current_pour_obj m)"
  then show "current_pour (program_state m) = NULL
        \<and> current_pour (program_state (update_state enabled t mb m)) \<noteq> NULL
        \<and> lockout_start (current_pour_obj (update_state enabled t mb m)) = t
      \<or> current_pour (program_state m) \<noteq> NULL
        \<and> current_pour (program_state (update_state enabled t mb m)) = NULL
        \<and> lockout_start (current_pour_obj (update_state enabled t mb m)) = 0"
    by (auto simp: update_state_def Let_def split: if_splits)
qed

text \<open>
  An instance: the automatic pour opened at 4000 ms keeps \<open>lockout_start\<close>
  through a refresh of its hysteresis start, a button press and a wet poll;
  a press at 7 ms from the initial memory creates a pour with
  \<open>lockout_start\<close> 7.
\<close>

theorem lockout_start_immutable_witness:
  "current_pour (program_state auto_pour_memory) \<noteq> NULL
   \<and> current_pour (program_state (update_state True 5000 False auto_pour_memory)) \<noteq> NULL
   \<and> start (current_pour_obj (update_state True 5000 False auto_pour_memory)) = 5000
   \<and> lockout_start (current_pour_obj (update_state True 5000 False auto_pour_memory)) = 4000
   \<and> manual (current_pour_obj (update_state True 5000 True auto_pour_memory))
   \<and> lockout_start (current_pour_obj (update_state True 5000 True auto_pour_memory)) = 4000
   \<and> should_pour (program_state (step (Poll 1000 True 5000 False) auto_pour_memory))
   \<and> lockout_start (current_pour_obj (step (Poll 1000 True 5000 False) auto_pour_memory))
        = 4000
   \<and> current_pour (program_state initial_memory) = NULL
   \<and> current_pour (program_state (update_state True 7 True initial_memory)) \<noteq> NULL
   \<and> lockout_start (current_pour_obj (update_state True 7 True initial_memory)) = 7
   \<and> lockout_start (current_pour_obj (update_state True 7 True initial_memory))
        \<noteq> lockout_start (current_pour_obj initial_memory)"
  using
    lockout_start_immutable [where m = auto_pour_memory and enabled = True and t = 5000
      and mb = False and e = "Poll 1000 True 5000 False"]
    lockout_start_immutable [where m = auto_pour_memory and enabled = True and t = 5000
      and mb = True and e = "Poll 1000 True 5000 False"]
    lockout_start_immutable [where m = initial_memory and enabled = True and t = 7
      and mb = True and e = "Poll 1000 True 5000 False"]
  by (simp add: evaluation_defs scenario_defs)

section \<open>Creating an automatic pour\<close>

text \<open>
  C10. With the system enabled, lockout not set, no pour active, the button
  released and the counter at least CONSECUTIVE, the evaluation creates an
  automatic pour (\<open>manual\<close> false, both timestamps now) and leaves the
  counter as it is, whereas creating a manual pour from the same memory
  resets it to 0. A following poll with a dry reading, before the safety
  timeout, therefore finds the counter still saturated and sets the
  hysteresis start to its own time.
\<close>

theorem auto_pour_creation_keeps_count:
  assumes "\<not> lockout (program_state m)" and "current_pour (program_state m) = NULL"
    and "uint (count (program_state m)) \<ge> CONSECUTIVE"
  shows "current_pour (program_state (update_state True t False m)) = Addr_current_pour
       \<and> snd (refresh True t False m)
       \<and> current_pour_obj (update_state True t False m)
           = \<lparr>manual = False, start = t, lockout_start = t\<rparr>
       \<and> count (program_state (update_state True t False m)) = count (program_state m)
       \<and> count (program_state (update_state True t True m)) = 0
       \<and> (r \<le> THRESHOLD \<and> t \<le> t' \<and> t' - t < word_of_int LOCKOUT_TIME_MS \<longrightarrow>
            current_pour_obj (step (Poll r True t' False) (update_state True t False m))
              = \<lparr>manual = False, start = t', lockout_start = t\<rparr>
            \<and> should_pour (program_state
                 (step (Poll r True t' False) (update_state True t False m)))
            \<and> count (program_state
                 (step (Poll r True t' False) (update_state True t False m)))
               = count (program_state m))"
  using assms
  by (auto simp: refresh_def update_state_def update_auto_pour_def should_pour_def Let_def
      not_less [symmetric])

text \<open>
  An instance: the fifth dry poll of the scenario, and the dry poll after it.
\<close>

theorem auto_pour_creation_keeps_count_witness:
  "\<not> lockout (program_state saturated_memory)
   \<and> current_pour (program_state saturated_memory) = NULL
   \<and> uint (count (program_state saturated_memory)) \<ge> CONSECUTIVE
   \<and> update_state True 4000 False saturated_memory = auto_pour_memory
   \<and> count (program_state (update_state True 4000 False saturated_memory)) = 5
   \<and> count (program_state (update_state True 4000 True saturated_memory)) = 0
   \<and> (800 :: int) \<le> THRESHOLD
   \<and> (5000 :: ulong) - 4000 < word_of_int LOCKOUT_TIME_MS
   \<and> current_pour_obj (step (Poll 800 True 5000 False)
        (update_state True 4000 False saturated_memory))
      = \<lparr>manual = False, start = 5000, lockout_start = 4000\<rparr>"
  using
    auto_pour_creation_keeps_count [where m = saturated_memory and t = 4000 and r = 800
      and t' = 5000]
  by (simp add: evaluation_defs scenario_defs)

end
